theory Spec2Isabelle
  imports Complex_Main "HOL-Library.AList"
begin

section \<open>Numbers and strings of the JavaScript runtime\<close>

text \<open>
  The repository is TypeScript. A JavaScript \<^verbatim>\<open>number\<close> that holds a proper value is
  modelled as an exact \<^typ>\<open>real\<close>: rounding, overflow to an infinity and the two signed
  zeros of IEEE 754 have no counterpart here. The one special value the code itself can
  produce from well-typed arguments is \<^verbatim>\<open>NaN\<close> (arithmetic on \<^verbatim>\<open>undefined\<close>, which an
  out-of-range array read returns), and that one is kept: \<open>jsnum\<close> below.
\<close>

text \<open>The character of a decimal digit.\<close>

definition digit_char :: "nat \<Rightarrow> char" where
  "digit_char d = ''0123456789'' ! (d mod 10)"

text \<open>
  \<^verbatim>\<open>Number.prototype.toString\<close> on a non-negative integer: its decimal digits
  (the runtime switches to exponent notation from \<open>10\<^sup>2\<^sup>1\<close> on, which is not modelled).
\<close>

fun toString :: "nat \<Rightarrow> string" where
  "toString n =
     (if n < 10 then [digit_char n] else toString (n div 10) @ [digit_char (n mod 10)])"

declare toString.simps [simp del]

text \<open>\<^verbatim>\<open>String.prototype.padStart(targetLength, padString)\<close> with a one-character pad.\<close>

definition padStart :: "nat \<Rightarrow> char \<Rightarrow> string \<Rightarrow> string" where
  "padStart targetLength c s = replicate (targetLength - length s) c @ s"

text \<open>\<^verbatim>\<open>Array.prototype.join\<close> on an array of strings.\<close>

fun join :: "string \<Rightarrow> string list \<Rightarrow> string" where
  "join sep [] = []"
| "join sep [x] = x"
| "join sep (x # y # ys) = x @ sep @ join sep (y # ys)"

section \<open>Tile names (cog-utils)\<close>

definition getCopernicusTileUrl :: "real \<Rightarrow> real \<Rightarrow> string" where
  "getCopernicusTileUrl lat lon =
     (let tileLat = \<lfloor>lat\<rfloor>;
          tileLon = \<lfloor>lon\<rfloor>;
          latPrefix = (if tileLat \<ge> 0 then ''N'' else ''S'');
          lonPrefix = (if tileLon \<ge> 0 then ''E'' else ''W'');
          latStr = padStart 2 (CHR ''0'') (toString (nat \<bar>tileLat\<bar>));
          lonStr = padStart 3 (CHR ''0'') (toString (nat \<bar>tileLon\<bar>));
          tileName = ''Copernicus_DSM_COG_10_'' @ latPrefix @ latStr @ ''_00_''
                       @ lonPrefix @ lonStr @ ''_00_DEM''
      in ''https://copernicus-dem-30m.s3.amazonaws.com/'' @ tileName @ ''/'' @ tileName
           @ ''.tif'')"

text \<open>
  \<open>getCogProtocolUrl\<close> reads \<^verbatim>\<open>window.location.origin\<close>; the page's origin is the
  first argument here.
\<close>

definition getCogProtocolUrl :: "string \<Rightarrow> real \<Rightarrow> real \<Rightarrow> string" where
  "getCogProtocolUrl origin lat lon =
     (let tileLat = \<lfloor>lat\<rfloor>;
          tileLon = \<lfloor>lon\<rfloor>;
          latPrefix = (if tileLat \<ge> 0 then ''N'' else ''S'');
          lonPrefix = (if tileLon \<ge> 0 then ''E'' else ''W'');
          latStr = padStart 2 (CHR ''0'') (toString (nat \<bar>tileLat\<bar>));
          lonStr = padStart 3 (CHR ''0'') (toString (nat \<bar>tileLon\<bar>));
          tileName = ''Copernicus_DSM_COG_10_'' @ latPrefix @ latStr @ ''_00_''
                       @ lonPrefix @ lonStr @ ''_00_DEM'';
          proxyPath = ''/api/cog/'' @ tileName @ ''/'' @ tileName @ ''.tif''
      in ''cog://'' @ origin @ proxyPath @ ''#dem'')"

subsection \<open>The tile identifier in the specification's words\<close>

text \<open>
  The canonical identifier as the specification describes it, from the two whole-degree
  coordinates: the hemisphere letter by sign with zero counted as non-negative, and the
  magnitude in decimal with leading zeros up to two digits (latitude) or three (longitude).
\<close>

definition zero_padded :: "nat \<Rightarrow> nat \<Rightarrow> string" where
  "zero_padded width n = replicate (width - length (toString n)) (CHR ''0'') @ toString n"

definition canonical_tile_id :: "int \<Rightarrow> int \<Rightarrow> string" where
  "canonical_tile_id la lo =
     ''Copernicus_DSM_COG_10_''
       @ [if 0 \<le> la then CHR ''N'' else CHR ''S''] @ zero_padded 2 (nat \<bar>la\<bar>) @ ''_00_''
       @ [if 0 \<le> lo then CHR ''E'' else CHR ''W''] @ zero_padded 3 (nat \<bar>lo\<bar>) @ ''_00_DEM''"

text \<open>The number a string of decimal digits denotes.\<close>

definition digit_value :: "char \<Rightarrow> nat" where
  "digit_value c = of_char c - 48"

definition decimal_value :: "string \<Rightarrow> nat" where
  "decimal_value s = foldl (\<lambda>acc c. 10 * acc + digit_value c) 0 s"

text \<open>The path segment of a URL that follows a given prefix, up to the next slash.\<close>

definition embedded_tile_name :: "string \<Rightarrow> string \<Rightarrow> string" where
  "embedded_tile_name prefix url = takeWhile (\<lambda>c. c \<noteq> CHR ''/'') (drop (length prefix) url)"

section \<open>The COG proxy route (api/cog)\<close>

text \<open>
  The route handlers call \<^verbatim>\<open>fetch\<close> on the fixed bucket and build a \<^verbatim>\<open>NextResponse\<close>.
  The network is a parameter: \<open>fetch url method headers\<close> either rejects (the promise
  throws) or is fulfilled with the upstream response. Header lists keep the names as the
  source writes them; \<^verbatim>\<open>Headers.set\<close> replaces a value in place or appends. Logging
  (\<^verbatim>\<open>console.log\<close>, \<^verbatim>\<open>console.error\<close>) is left out. The response constructors of the
  platform are taken as plain record construction: the validation they do themselves
  (they refuse a body on a status such as 304) is outside this model.
\<close>

type_synonym header_list = "(string \<times> string) list"

record upstream_response =
  up_status :: nat
  up_headers :: header_list
  up_body :: "string option"

datatype fetch_outcome = Rejected | Fulfilled upstream_response

text \<open>
  A response body: \<open>Json_error msg\<close> is the serialised object \<^verbatim>\<open>{ error: msg }\<close>,
  \<open>Passed b\<close> the upstream body handed on as it is (\<open>None\<close> for \<^verbatim>\<open>null\<close>).
\<close>

datatype response_body = Json_error string | Passed "string option"

record proxy_response =
  status :: nat
  headers :: header_list
  body :: response_body

record request =
  req_headers :: header_list

text \<open>\<^verbatim>\<open>Response.ok\<close> of the Fetch standard: the status is in the range 200 to 299.\<close>

definition ok :: "upstream_response \<Rightarrow> bool" where
  "ok response = (200 \<le> up_status response \<and> up_status response \<le> 299)"

text \<open>
  \<^verbatim>\<open>NextResponse.json({ error: msg }, { status })\<close>: the only header is the content type
  the constructor adds.
\<close>

definition NextResponse_json :: "string \<Rightarrow> nat \<Rightarrow> proxy_response" where
  "NextResponse_json msg st =
     \<lparr>status = st, headers = [(''content-type'', ''application/json'')],
      body = Json_error msg\<rparr>"

text \<open>\<^verbatim>\<open>if (v) hs.set(name, v)\<close>: a header value is set when it is present and not empty.\<close>

definition set_if_present :: "string \<Rightarrow> string option \<Rightarrow> header_list \<Rightarrow> header_list" where
  "set_if_present name v hs =
     (case v of None \<Rightarrow> hs | Some x \<Rightarrow> if x = [] then hs else AList.update name x hs)"

definition s3Url :: "string list \<Rightarrow> string" where
  "s3Url path = ''https://copernicus-dem-30m.s3.amazonaws.com/'' @ join ''/'' path"

text \<open>The request headers of the upstream fetch: the inbound \<^verbatim>\<open>Range\<close> header, if any.\<close>

definition forwarded_headers :: "request \<Rightarrow> header_list" where
  "forwarded_headers req =
     (case map_of (req_headers req) ''range'' of
        None \<Rightarrow> []
      | Some rangeHeader \<Rightarrow> if rangeHeader = [] then [] else [(''Range'', rangeHeader)])"

definition GET ::
  "(string \<Rightarrow> string \<Rightarrow> header_list \<Rightarrow> fetch_outcome) \<Rightarrow> request \<Rightarrow> string list \<Rightarrow> proxy_response"
where
  "GET fetch req path =
     (case fetch (s3Url path) ''GET'' (forwarded_headers req) of
        Rejected \<Rightarrow> NextResponse_json ''Failed to fetch COG file'' 500
      | Fulfilled response \<Rightarrow>
          if \<not> ok response \<and> up_status response \<noteq> 206
          then NextResponse_json (''S3 error: '' @ toString (up_status response))
                 (up_status response)
          else
            (let h0 = AList.update ''Access-Control-Allow-Origin'' ''*'' [];
                 h1 = AList.update ''Access-Control-Allow-Methods'' ''GET, HEAD, OPTIONS'' h0;
                 h2 = AList.update ''Access-Control-Allow-Headers'' ''Range'' h1;
                 h3 = AList.update ''Access-Control-Expose-Headers''
                        ''Content-Range, Content-Length, Accept-Ranges'' h2;
                 h4 = set_if_present ''Content-Type''
                        (map_of (up_headers response) ''content-type'') h3;
                 h5 = set_if_present ''Content-Length''
                        (map_of (up_headers response) ''content-length'') h4;
                 h6 = set_if_present ''Content-Range''
                        (map_of (up_headers response) ''content-range'') h5;
                 responseHeaders = set_if_present ''Accept-Ranges''
                        (map_of (up_headers response) ''accept-ranges'') h6
             in \<lparr>status = up_status response, headers = responseHeaders,
                 body = Passed (up_body response)\<rparr>))"

definition HEAD ::
  "(string \<Rightarrow> string \<Rightarrow> header_list \<Rightarrow> fetch_outcome) \<Rightarrow> request \<Rightarrow> string list \<Rightarrow> proxy_response"
where
  "HEAD fetch req path =
     (case fetch (s3Url path) ''HEAD'' [] of
        Rejected \<Rightarrow> NextResponse_json ''Failed'' 500
      | Fulfilled response \<Rightarrow>
          (let h0 = AList.update ''Access-Control-Allow-Origin'' ''*'' [];
               h1 = AList.update ''Access-Control-Allow-Methods'' ''GET, HEAD, OPTIONS'' h0;
               h2 = AList.update ''Access-Control-Expose-Headers''
                      ''Content-Range, Content-Length, Accept-Ranges'' h1;
               h3 = set_if_present ''Content-Type''
                      (map_of (up_headers response) ''content-type'') h2;
               h4 = set_if_present ''Content-Length''
                      (map_of (up_headers response) ''content-length'') h3;
               responseHeaders = set_if_present ''Accept-Ranges''
                      (map_of (up_headers response) ''accept-ranges'') h4
           in \<lparr>status = up_status response, headers = responseHeaders,
               body = Passed None\<rparr>))"

definition OPTIONS :: proxy_response where
  "OPTIONS =
     \<lparr>status = 204,
      headers = [(''Access-Control-Allow-Origin'', ''*''),
                 (''Access-Control-Allow-Methods'', ''GET, HEAD, OPTIONS''),
                 (''Access-Control-Allow-Headers'', ''Range''),
                 (''Access-Control-Expose-Headers'',
                  ''Content-Range, Content-Length, Accept-Ranges'')],
      body = Passed None\<rparr>"

text \<open>The permissive CORS header set the specification lists, read off a header list.\<close>

definition cors_headers_present :: "header_list \<Rightarrow> bool" where
  "cors_headers_present hs =
     (map_of hs ''Access-Control-Allow-Origin'' = Some ''*''
      \<and> map_of hs ''Access-Control-Allow-Methods'' = Some ''GET, HEAD, OPTIONS''
      \<and> map_of hs ''Access-Control-Allow-Headers'' = Some ''Range''
      \<and> map_of hs ''Access-Control-Expose-Headers'' =
            Some ''Content-Range, Content-Length, Accept-Ranges'')"

section \<open>Slope utilities (slope-utils)\<close>

text \<open>
  A \<^verbatim>\<open>number\<close> that may be \<^verbatim>\<open>NaN\<close>. Arithmetic with a \<^verbatim>\<open>NaN\<close> operand gives
  \<^verbatim>\<open>NaN\<close>, and every comparison with it is false.
\<close>

datatype jsnum = NaN | Num real

fun num_binop :: "(real \<Rightarrow> real \<Rightarrow> real) \<Rightarrow> jsnum \<Rightarrow> jsnum \<Rightarrow> jsnum" where
  "num_binop f (Num a) (Num b) = Num (f a b)"
| "num_binop f _ _ = NaN"

fun js_lt :: "jsnum \<Rightarrow> jsnum \<Rightarrow> bool" where
  "js_lt (Num a) (Num b) = (a < b)"
| "js_lt _ _ = False"

fun Math_sqrt :: "jsnum \<Rightarrow> jsnum" where
  "Math_sqrt (Num x) = (if x < 0 then NaN else Num (sqrt x))"
| "Math_sqrt NaN = NaN"

text \<open>\<^verbatim>\<open>Math.atan2(y, x)\<close> on proper numbers, by quadrant.\<close>

definition Math_atan2 :: "real \<Rightarrow> real \<Rightarrow> real" where
  "Math_atan2 y x =
     (if 0 < x then arctan (y / x)
      else if x < 0 then (if 0 \<le> y then arctan (y / x) + pi else arctan (y / x) - pi)
      else if 0 < y then pi / 2
      else if y < 0 then - (pi / 2)
      else 0)"

text \<open>\<^verbatim>\<open>Math.round\<close>: the nearest integer, a tie going up.\<close>

definition Math_round :: "real \<Rightarrow> real" where
  "Math_round x = of_int \<lfloor>x + 1 / 2\<rfloor>"

text \<open>
  \<^verbatim>\<open>Math.max(...xs)\<close> on a list with a first element: \<^verbatim>\<open>NaN\<close> as soon as one argument
  is.
\<close>

definition Math_max :: "jsnum \<Rightarrow> jsnum list \<Rightarrow> jsnum" where
  "Math_max x xs = fold (num_binop max) xs x"

text \<open>
  What an array read returns for an elevation sample: \<^verbatim>\<open>undefined\<close> past the end of a
  row, \<^verbatim>\<open>null\<close> where the terrain has no data, or the elevation. In arithmetic
  (\<open>ToNumber\<close>) \<^verbatim>\<open>undefined\<close> is \<^verbatim>\<open>NaN\<close> and \<^verbatim>\<open>null\<close> is 0.
\<close>

datatype sample = Undefined | Null | Elev real

fun ToNumber :: "sample \<Rightarrow> jsnum" where
  "ToNumber Undefined = NaN"
| "ToNumber Null = Num 0"
| "ToNumber (Elev v) = Num v"

record SlopeCell =
  lng :: jsnum
  lat :: jsnum
  slope :: jsnum
  elevation :: sample

fun calculateSlopeAngle :: "jsnum \<Rightarrow> jsnum \<Rightarrow> jsnum" where
  "calculateSlopeAngle elevDiff (Num distance) =
     (if distance = 0 then Num 0
      else (case elevDiff of
              NaN \<Rightarrow> NaN
            | Num d \<Rightarrow> Num (arctan (\<bar>d\<bar> / distance) * (180 / pi))))"
| "calculateSlopeAngle elevDiff NaN = NaN"

fun haversineDistance :: "jsnum \<Rightarrow> jsnum \<Rightarrow> jsnum \<Rightarrow> jsnum \<Rightarrow> jsnum" where
  "haversineDistance (Num lat1) (Num lng1) (Num lat2) (Num lng2) =
     (let R = 6371000;
          dLat = (lat2 - lat1) * (pi / 180);
          dLng = (lng2 - lng1) * (pi / 180);
          a = sin (dLat / 2) * sin (dLat / 2)
              + cos (lat1 * (pi / 180)) * cos (lat2 * (pi / 180))
                * sin (dLng / 2) * sin (dLng / 2);
          c = num_binop (*) (Num 2)
                (num_binop Math_atan2 (Math_sqrt (Num a)) (Math_sqrt (Num (1 - a))))
      in num_binop (*) (Num R) c)"
| "haversineDistance _ _ _ _ = NaN"

text \<open>
  The reads \<^verbatim>\<open>elevations[j][i]\<close> and \<^verbatim>\<open>elevations[j + 1]?.[i]\<close> of the grid loop (whose
  row index is always below the number of rows), and the reads \<^verbatim>\<open>lngs[i]\<close>,
  \<^verbatim>\<open>lats[j]\<close>, which only ever enter arithmetic.
\<close>

definition elevAt :: "real option list list \<Rightarrow> nat \<Rightarrow> nat \<Rightarrow> sample" where
  "elevAt elevations j i =
     (if j < length elevations \<and> i < length (elevations ! j)
      then (case elevations ! j ! i of None \<Rightarrow> Null | Some v \<Rightarrow> Elev v)
      else Undefined)"

definition numAt :: "real list \<Rightarrow> nat \<Rightarrow> jsnum" where
  "numAt xs i = (if i < length xs then Num (xs ! i) else NaN)"

text \<open>
  The two edge lengths the loop body computes at row \<open>j\<close> and column \<open>i\<close>
  (\<^verbatim>\<open>const distRight\<close>, \<^verbatim>\<open>const distUp\<close>).
\<close>

definition distRight :: "real list \<Rightarrow> real list \<Rightarrow> nat \<Rightarrow> nat \<Rightarrow> jsnum" where
  "distRight lngs lats j i =
     haversineDistance (numAt lats j) (numAt lngs i) (numAt lats j) (numAt lngs (i + 1))"

definition distUp :: "real list \<Rightarrow> real list \<Rightarrow> nat \<Rightarrow> nat \<Rightarrow> jsnum" where
  "distUp lngs lats j i =
     haversineDistance (numAt lats j) (numAt lngs i) (numAt lats (j + 1)) (numAt lngs i)"

text \<open>
  The body of the two nested loops of \<open>calculateSlopeGrid\<close> at row \<open>j\<close> and column \<open>i\<close>:
  \<open>None\<close> when the iteration is skipped (\<^verbatim>\<open>continue\<close>), otherwise the cell it pushes.
\<close>

definition calculateSlopeGrid_cell ::
  "real option list list \<Rightarrow> real list \<Rightarrow> real list \<Rightarrow> nat \<Rightarrow> nat \<Rightarrow> SlopeCell option"
where
  "calculateSlopeGrid_cell elevations lngs lats j i =
     (let elev = elevAt elevations j i in
      if elev = Null then None
      else
        (let elevRight = elevAt elevations j (i + 1);
             elevUp = elevAt elevations (j + 1) i;
             elevDiag = elevAt elevations (j + 1) (i + 1);
             dRight = distRight lngs lats j i;
             dUp = distUp lngs lats j i;
             slopes0 = [];
             slopes1 =
               (if elevRight \<noteq> Null
                then slopes0 @ [calculateSlopeAngle
                       (num_binop (-) (ToNumber elevRight) (ToNumber elev)) dRight]
                else slopes0);
             slopes2 =
               (if elevUp \<noteq> Null
                then slopes1 @ [calculateSlopeAngle
                       (num_binop (-) (ToNumber elevUp) (ToNumber elev)) dUp]
                else slopes1);
             slopes =
               (if elevDiag \<noteq> Null
                then (let distDiag = Math_sqrt (num_binop (+)
                                       (num_binop (*) dRight dRight)
                                       (num_binop (*) dUp dUp))
                      in slopes2 @ [calculateSlopeAngle
                           (num_binop (-) (ToNumber elevDiag) (ToNumber elev)) distDiag])
                else slopes2);
             maxSlope = (case slopes of [] \<Rightarrow> Num 0 | x # xs \<Rightarrow> Math_max x xs)
         in Some \<lparr>lng = num_binop (/) (num_binop (+) (numAt lngs i) (numAt lngs (i + 1))) (Num 2),
                  lat = num_binop (/) (num_binop (+) (numAt lats j) (numAt lats (j + 1))) (Num 2),
                  slope = maxSlope,
                  elevation = elev\<rparr>))"

definition calculateSlopeGrid ::
  "real option list list \<Rightarrow> real list \<Rightarrow> real list \<Rightarrow> SlopeCell list"
where
  "calculateSlopeGrid elevations lngs lats =
     (let rows = length elevations;
          cols = (case elevations of [] \<Rightarrow> 0 | row # _ \<Rightarrow> length row)
      in concat (map (\<lambda>j.
           concat (map (\<lambda>i.
             case calculateSlopeGrid_cell elevations lngs lats j i of
               None \<Rightarrow> []
             | Some cell \<Rightarrow> [cell])
           [0 ..< cols - 1]))
         [0 ..< rows - 1]))"

text \<open>
  A colour string: \<open>Transparent\<close> is the string \<^verbatim>\<open>'transparent'\<close>, and \<open>Rgba r g b a\<close>
  the template string \<^verbatim>\<open>rgba(r, g, b, a)\<close> with the four numbers in its holes (how the
  runtime prints a number is not modelled).
\<close>

datatype color = Transparent | Rgba jsnum jsnum jsnum jsnum

fun getSlopeColor :: "jsnum \<Rightarrow> jsnum \<Rightarrow> color" where
  "getSlopeColor (Num slopeDegrees) (Num minSlope) =
     (if slopeDegrees < minSlope then Transparent
      else
        (let normalized = min 1 (max 0 ((slopeDegrees - minSlope) / 40)) in
         if normalized < 0.33 then
           (let t = normalized / 0.33;
                r = 255;
                g = Math_round (255 - t * 100);
                b = 0
            in Rgba (Num r) (Num g) (Num b) (Num (0.3 + normalized * 0.4)))
         else if normalized < 0.66 then
           (let t = (normalized - 0.33) / 0.33;
                r = 255;
                g = Math_round (155 - t * 100);
                b = 0
            in Rgba (Num r) (Num g) (Num b) (Num (0.5 + normalized * 0.3)))
         else
           (let t = (normalized - 0.66) / 0.34;
                r = Math_round (255 - t * 55);
                g = Math_round (55 - t * 55);
                b = 0
            in Rgba (Num r) (Num g) (Num b) (Num (0.7 + normalized * 0.2)))))"
| "getSlopeColor _ _ = Rgba NaN NaN (Num 0) NaN"

text \<open>
  A polygon feature: the ring of its geometry and its three properties (the constant
  \<^verbatim>\<open>type\<close> tags are left out).
\<close>

record Feature =
  coordinates :: "(jsnum \<times> jsnum) list"
  prop_slope :: jsnum
  prop_elevation :: sample
  prop_color :: color

record FeatureCollection =
  features :: "Feature list"

fun slope_features :: "SlopeCell list \<Rightarrow> jsnum \<Rightarrow> jsnum \<Rightarrow> Feature list" where
  "slope_features [] cellSize minSlope = []"
| "slope_features (cell # cells) cellSize minSlope =
     (if js_lt (slope cell) minSlope then slope_features cells cellSize minSlope
      else
        (let halfSize = num_binop (/) cellSize (Num 2);
             coords =
               [(num_binop (-) (lng cell) halfSize, num_binop (-) (lat cell) halfSize),
                (num_binop (+) (lng cell) halfSize, num_binop (-) (lat cell) halfSize),
                (num_binop (+) (lng cell) halfSize, num_binop (+) (lat cell) halfSize),
                (num_binop (-) (lng cell) halfSize, num_binop (+) (lat cell) halfSize),
                (num_binop (-) (lng cell) halfSize, num_binop (-) (lat cell) halfSize)]
         in \<lparr>coordinates = coords,
             prop_slope = slope cell,
             prop_elevation = elevation cell,
             prop_color = getSlopeColor (slope cell) minSlope\<rparr>
            # slope_features cells cellSize minSlope))"

definition createSlopeGeoJSON :: "SlopeCell list \<Rightarrow> jsnum \<Rightarrow> jsnum \<Rightarrow> FeatureCollection" where
  "createSlopeGeoJSON cells cellSize minSlope =
     \<lparr>features = slope_features cells cellSize minSlope\<rparr>"

section \<open>Cliff detector (cliff-detector)\<close>

text \<open>
  The older module has a \<^verbatim>\<open>calculateSlopeAngle\<close> of its own, without the absolute value
  and without a guard on the distance:
  \<^verbatim>\<open>Math.atan(heightDiff / horizontalDist) * (180 / Math.PI)\<close>. A division by zero
  is written out as IEEE 754 has it for a zero divisor of positive sign: the quotient is
  an infinity of the sign of \<open>heightDiff\<close>, whose arc tangent is a quarter turn, or
  \<^verbatim>\<open>NaN\<close> for \<open>0 / 0\<close>.
\<close>

definition cliff_detector_calculateSlopeAngle :: "real \<Rightarrow> real \<Rightarrow> jsnum" where
  "cliff_detector_calculateSlopeAngle heightDiff horizontalDist =
     (if horizontalDist \<noteq> 0 then Num (arctan (heightDiff / horizontalDist) * (180 / pi))
      else if 0 < heightDiff then Num 90
      else if heightDiff < 0 then Num (- 90)
      else NaN)"

section \<open>The specification's notions for the slope pipeline\<close>

text \<open>The number of columns the grid loop uses: the length of the first row.\<close>

definition grid_cols :: "real option list list \<Rightarrow> nat" where
  "grid_cols elevations = (case elevations of [] \<Rightarrow> 0 | row # _ \<Rightarrow> length row)"

text \<open>An elevation matrix: every row has the length of the first.\<close>

definition rectangular :: "real option list list \<Rightarrow> bool" where
  "rectangular elevations = (\<forall>row \<in> set elevations. length row = grid_cols elevations)"



text \<open>
  The three directions of a cell: the neighbouring sample and the ground distance to it,
  for the right, the upper and the diagonal neighbour.
\<close>

definition directions ::
  "real option list list \<Rightarrow> real list \<Rightarrow> real list \<Rightarrow> nat \<Rightarrow> nat \<Rightarrow> (sample \<times> jsnum) list"
where
  "directions elevations lngs lats j i =
     [(elevAt elevations j (i + 1), distRight lngs lats j i),
      (elevAt elevations (j + 1) i, distUp lngs lats j i),
      (elevAt elevations (j + 1) (i + 1),
       Math_sqrt (num_binop (+)
         (num_binop (*) (distRight lngs lats j i) (distRight lngs lats j i))
         (num_binop (*) (distUp lngs lats j i) (distUp lngs lats j i))))]"

text \<open>The directional slopes that are available: those toward a neighbour that is not null.\<close>

definition available_slopes ::
  "real option list list \<Rightarrow> real list \<Rightarrow> real list \<Rightarrow> nat \<Rightarrow> nat \<Rightarrow> jsnum list"
where
  "available_slopes elevations lngs lats j i =
     map (\<lambda>(n, d). calculateSlopeAngle
            (num_binop (-) (ToNumber n) (ToNumber (elevAt elevations j i))) d)
       (filter (\<lambda>(n, d). n \<noteq> Null) (directions elevations lngs lats j i))"

fun the_reals :: "jsnum list \<Rightarrow> real list" where
  "the_reals [] = []"
| "the_reals (Num r # xs) = r # the_reals xs"
| "the_reals (NaN # xs) = the_reals xs"

text \<open>
  The maximum of the available values, and 0 when there is none (\<^verbatim>\<open>NaN\<close> when one of
  them is not a number).
\<close>

definition maximum_or_zero :: "jsnum list \<Rightarrow> jsnum" where
  "maximum_or_zero xs =
     (if xs = [] then Num 0
      else if NaN \<in> set xs then NaN
      else Num (Max (set (the_reals xs))))"

text \<open>
  A well-formed \<^verbatim>\<open>rgba(r, g, b, a)\<close> colour: the three channels are whole numbers from 0
  to 255 and the alpha is a number from 0 to 1.
\<close>

definition is_channel :: "real \<Rightarrow> bool" where
  "is_channel v = (v = of_int \<lfloor>v\<rfloor> \<and> 0 \<le> v \<and> v \<le> 255)"

fun well_formed_rgba :: "color \<Rightarrow> bool" where
  "well_formed_rgba (Rgba (Num r) (Num g) (Num b) (Num a)) =
     (is_channel r \<and> is_channel g \<and> is_channel b \<and> 0 \<le> a \<and> a \<le> 1)"
| "well_formed_rgba _ = False"

fun rgba_alpha :: "color \<Rightarrow> real option" where
  "rgba_alpha (Rgba r g b (Num a)) = Some a"
| "rgba_alpha _ = None"

text \<open>
  The pieces of \<open>getSlopeColor\<close> above the threshold, named for the proofs: the slope
  normalised over the 40 degree span, the opacity of the ramp and its colour.
\<close>

definition normalized_of :: "real \<Rightarrow> real \<Rightarrow> real" where
  "normalized_of x m = min 1 (max 0 ((x - m) / 40))"

definition ramp_alpha :: "real \<Rightarrow> real" where
  "ramp_alpha n =
     (if n < 0.33 then 0.3 + n * 0.4
      else if n < 0.66 then 0.5 + n * 0.3
      else 0.7 + n * 0.2)"

definition ramp_color :: "real \<Rightarrow> color" where
  "ramp_color n =
     (if n < 0.33 then Rgba (Num 255) (Num (Math_round (255 - n / 0.33 * 100))) (Num 0)
                         (Num (0.3 + n * 0.4))
      else if n < 0.66 then Rgba (Num 255) (Num (Math_round (155 - (n - 0.33) / 0.33 * 100)))
                         (Num 0) (Num (0.5 + n * 0.3))
      else Rgba (Num (Math_round (255 - (n - 0.66) / 0.34 * 55)))
             (Num (Math_round (55 - (n - 0.66) / 0.34 * 55))) (Num 0) (Num (0.7 + n * 0.2)))"

section \<open>Properties of the tile names\<close>

lemma digit_char_no_slash: "d < 10 \<Longrightarrow> digit_char d \<noteq> CHR ''/''"
proof -
  assume "d < 10"
  then have "d \<in> {0, 1, 2, 3, 4, 5, 6, 7, 8, 9}" by auto
  then show ?thesis by (auto simp: digit_char_def)
qed

lemma toString_no_slash: "CHR ''/'' \<notin> set (toString n)"
proof (induction n rule: toString.induct)
  case (1 n)
  show ?case
  proof (cases "n < 10")
    case True
    then show ?thesis
      using digit_char_no_slash [of n] by (simp add: toString.simps [of n])
  next
    case False
    have "n mod 10 < 10" by simp
    then have "digit_char (n mod 10) \<noteq> CHR ''/''" by (rule digit_char_no_slash)
    with False "1.IH" show ?thesis by (auto simp: toString.simps [of n])
  qed
qed

lemma canonical_tile_id_no_slash: "CHR ''/'' \<notin> set (canonical_tile_id la lo)"
  by (simp add: canonical_tile_id_def zero_padded_def toString_no_slash)

lemma getCopernicusTileUrl_decomposed:
  "getCopernicusTileUrl la lo =
     ''https://copernicus-dem-30m.s3.amazonaws.com/'' @ canonical_tile_id \<lfloor>la\<rfloor> \<lfloor>lo\<rfloor>
       @ ''/'' @ canonical_tile_id \<lfloor>la\<rfloor> \<lfloor>lo\<rfloor> @ ''.tif''"
  by (simp add: getCopernicusTileUrl_def canonical_tile_id_def zero_padded_def padStart_def
      Let_def)

lemma getCogProtocolUrl_decomposed:
  "getCogProtocolUrl origin la lo =
     ''cog://'' @ origin @ ''/api/cog/'' @ canonical_tile_id \<lfloor>la\<rfloor> \<lfloor>lo\<rfloor>
       @ ''/'' @ canonical_tile_id \<lfloor>la\<rfloor> \<lfloor>lo\<rfloor> @ ''.tif#dem''"
  by (simp add: getCogProtocolUrl_def canonical_tile_id_def zero_padded_def padStart_def
      Let_def)

lemma embedded_tile_name_eq:
  assumes "CHR ''/'' \<notin> set t"
  shows "embedded_tile_name p (p @ t @ ''/'' @ rest) = t"
proof -
  have "takeWhile (\<lambda>c. c \<noteq> CHR ''/'') (t @ CHR ''/'' # rest) = t"
    using assms by (induction t) auto
  then show ?thesis by (simp add: embedded_tile_name_def)
qed





text \<open>
  Claim C10. For every real latitude \<open>la\<close> and longitude \<open>lo\<close> (and whatever the page's
  origin), the two copies of the tile-name computation agree: the tile name embedded in
  the URL of \<open>getCopernicusTileUrl\<close> and the one embedded in the proxy path of
  \<open>getCogProtocolUrl\<close> are the same string, the canonical identifier of the floored
  coordinates.
\<close>

theorem tile_name_computations_agree:
  "embedded_tile_name ''https://copernicus-dem-30m.s3.amazonaws.com/''
       (getCopernicusTileUrl la lo)
     = embedded_tile_name (''cog://'' @ origin @ ''/api/cog/'')
         (getCogProtocolUrl origin la lo)
   \<and> embedded_tile_name ''https://copernicus-dem-30m.s3.amazonaws.com/''
       (getCopernicusTileUrl la lo) = canonical_tile_id \<lfloor>la\<rfloor> \<lfloor>lo\<rfloor>
   \<and> getCopernicusTileUrl la lo =
       ''https://copernicus-dem-30m.s3.amazonaws.com/'' @ canonical_tile_id \<lfloor>la\<rfloor> \<lfloor>lo\<rfloor>
         @ ''/'' @ canonical_tile_id \<lfloor>la\<rfloor> \<lfloor>lo\<rfloor> @ ''.tif''
   \<and> getCogProtocolUrl origin la lo =
       ''cog://'' @ origin @ ''/api/cog/'' @ canonical_tile_id \<lfloor>la\<rfloor> \<lfloor>lo\<rfloor>
         @ ''/'' @ canonical_tile_id \<lfloor>la\<rfloor> \<lfloor>lo\<rfloor> @ ''.tif#dem''"
proof -
  let ?t = "canonical_tile_id \<lfloor>la\<rfloor> \<lfloor>lo\<rfloor>"
  have slash: "CHR ''/'' \<notin> set ?t" by (rule canonical_tile_id_no_slash)
  have a: "embedded_tile_name ''https://copernicus-dem-30m.s3.amazonaws.com/''
      (getCopernicusTileUrl la lo) = ?t"
    unfolding getCopernicusTileUrl_decomposed
    by (rule embedded_tile_name_eq [OF slash])
  define p where "p = ''cog://'' @ origin @ ''/api/cog/''"
  have "getCogProtocolUrl origin la lo = p @ ?t @ ''/'' @ (?t @ ''.tif#dem'')"
    by (simp add: p_def getCogProtocolUrl_decomposed)
  then have "embedded_tile_name p (getCogProtocolUrl origin la lo) = ?t"
    by (simp only: embedded_tile_name_eq [OF slash])
  then have b: "embedded_tile_name (''cog://'' @ origin @ ''/api/cog/'')
      (getCogProtocolUrl origin la lo) = ?t"
    by (simp only: p_def)
  from a b show ?thesis
    using getCopernicusTileUrl_decomposed [of la lo]
      getCogProtocolUrl_decomposed [of origin la lo]
    by (simp only: simp_thms)
qed

section \<open>Properties of the proxy route\<close>

lemma toString_404: "toString 404 = ''404''"
  by (simp add: toString.simps digit_char_def)

lemma toString_204: "toString 204 = ''204''"
  by (simp add: toString.simps digit_char_def)

lemma map_of_set_if_present:
  "k \<noteq> name \<Longrightarrow> map_of (set_if_present name v hs) k = map_of hs k"
  by (simp add: set_if_present_def update_conv' split: option.splits)

lemma GET_fulfilled_ok:
  assumes "fetch (s3Url path) ''GET'' (forwarded_headers req) = Fulfilled response"
    and "ok response"
  shows "status (GET fetch req path) = up_status response"
    and "body (GET fetch req path) = Passed (up_body response)"
    and "cors_headers_present (headers (GET fetch req path))"
  using assms
  by (simp_all add: GET_def Let_def cors_headers_present_def map_of_set_if_present update_conv')


lemma GET_rejected:
  assumes "fetch (s3Url path) ''GET'' (forwarded_headers req) = Rejected"
  shows "GET fetch req path = NextResponse_json ''Failed to fetch COG file'' 500"
  using assms by (simp add: GET_def)

text \<open>
  Claim C1 says that every response of \<open>GET\<close> carries the permissive CORS headers,
  whatever the outcome. The handler returns its two error responses before the header
  set is built: with an upstream 404 (request header \<open>Range: bytes=0-99\<close>) the response is
  the bare JSON error at status 404, and when the fetch throws it is the bare JSON error
  at status 500; neither carries any of the four CORS headers.
\<close>

theorem GET_error_responses_lack_cors:
  "GET (\<lambda>url method hs. Fulfilled
          \<lparr>up_status = 404, up_headers = [(''content-type'', ''application/xml'')],
           up_body = Some ''NoSuchKey''\<rparr>)
       \<lparr>req_headers = [(''range'', ''bytes=0-99'')]\<rparr> [''missing'', ''missing.tif'']
     = \<lparr>status = 404, headers = [(''content-type'', ''application/json'')],
        body = Json_error ''S3 error: 404''\<rparr>
   \<and> GET (\<lambda>url method hs. Rejected) \<lparr>req_headers = [(''range'', ''bytes=0-99'')]\<rparr>
       [''missing'', ''missing.tif'']
     = \<lparr>status = 500, headers = [(''content-type'', ''application/json'')],
        body = Json_error ''Failed to fetch COG file''\<rparr>
   \<and> \<not> cors_headers_present [(''content-type'', ''application/json'')]"
  by (simp add: GET_def ok_def NextResponse_json_def toString_404 cors_headers_present_def)

text \<open>
  The sibling handler \<open>HEAD\<close> has no status check: it relays an upstream error status
  together with the CORS headers it sets.
\<close>

lemma HEAD_relays_errors_with_cors:
  "fetch (s3Url path) ''HEAD'' [] = Fulfilled response \<Longrightarrow>
     status (HEAD fetch req path) = up_status response
     \<and> map_of (headers (HEAD fetch req path)) ''Access-Control-Allow-Origin'' = Some ''*''"
  by (simp add: HEAD_def Let_def map_of_set_if_present update_conv')




section \<open>Properties of the slope angle\<close>

lemma calculateSlopeAngle_zero_distance: "calculateSlopeAngle h (Num 0) = Num 0"
  by simp

lemma calculateSlopeAngle_zero_diff: "d \<noteq> 0 \<Longrightarrow> calculateSlopeAngle (Num 0) (Num d) = Num 0"
  by simp

lemma cliff_detector_zero_diff: "d \<noteq> 0 \<Longrightarrow> cliff_detector_calculateSlopeAngle 0 d = Num 0"
  by (simp add: cliff_detector_calculateSlopeAngle_def)

text \<open>
  Only the unguarded cliff-detector variant reaches a quarter turn on a zero distance,
  with the sign of the height difference.
\<close>

lemma cliff_detector_zero_distance:
  "cliff_detector_calculateSlopeAngle h 0 =
     (if 0 < h then Num 90 else if h < 0 then Num (- 90) else NaN)"
  by (simp add: cliff_detector_calculateSlopeAngle_def)

text \<open>
  Claim C3, as amended. \<open>calculateSlopeAngle(0, d)\<close> is 0 for every distance \<open>d\<close> other than 0
  (in slope-utils and in the older cliff-detector variant alike), and
  \<open>calculateSlopeAngle(h, 0)\<close> of slope-utils is 0 for every \<open>h\<close>: the function returns 0 on a
  zero distance before it divides.
\<close>

theorem calculateSlopeAngle_zero_cases:
  "(d \<noteq> 0 \<longrightarrow> calculateSlopeAngle (Num 0) (Num d) = Num 0
               \<and> cliff_detector_calculateSlopeAngle 0 d = Num 0)
   \<and> calculateSlopeAngle h (Num 0) = Num 0"
  by (simp add: cliff_detector_calculateSlopeAngle_def)

text \<open>Claim C3, witness: distance 20, and height difference 3 over distance 0.\<close>

theorem calculateSlopeAngle_zero_cases_witness:
  "(20 :: real) \<noteq> 0 \<and> calculateSlopeAngle (Num 0) (Num 20) = Num 0
   \<and> cliff_detector_calculateSlopeAngle 0 20 = Num 0
   \<and> calculateSlopeAngle (Num 3) (Num 0) = Num 0"
  using calculateSlopeAngle_zero_cases [of 20 "Num 3"] by simp

text \<open>
  Claim C3 as stated fails: for the height difference 3 and the distance 0 the result of
  slope-utils is 0, not 90 degrees; and the unguarded cliff-detector variant gives -90
  degrees, not 90, for the height difference -3.
\<close>

theorem calculateSlopeAngle_zero_distance_counterexample:
  "(3 :: real) \<noteq> 0 \<and> calculateSlopeAngle (Num 3) (Num 0) = Num 0
   \<and> calculateSlopeAngle (Num 3) (Num 0) \<noteq> Num 90
   \<and> (- 3 :: real) \<noteq> 0 \<and> cliff_detector_calculateSlopeAngle (- 3) 0 = Num (- 90)
   \<and> cliff_detector_calculateSlopeAngle (- 3) 0 \<noteq> Num 90"
  by (simp add: cliff_detector_calculateSlopeAngle_def)

section \<open>Properties of the colour ramp\<close>

lemma normalized_of_range: "0 \<le> normalized_of x m \<and> normalized_of x m \<le> 1"
  by (simp add: normalized_of_def)

lemma normalized_of_mono: "x \<le> y \<Longrightarrow> normalized_of x m \<le> normalized_of y m"
  by (simp add: normalized_of_def min_def max_def divide_right_mono)

lemma ramp_alpha_mono: "a \<le> b \<Longrightarrow> ramp_alpha a \<le> ramp_alpha b"
  by (simp add: ramp_alpha_def)

lemma ramp_alpha_range: "0 \<le> n \<Longrightarrow> n \<le> 1 \<Longrightarrow> 0 \<le> ramp_alpha n \<and> ramp_alpha n \<le> 1"
  by (simp add: ramp_alpha_def)

lemma getSlopeColor_ramp:
  "m \<le> x \<Longrightarrow> getSlopeColor (Num x) (Num m) = ramp_color (normalized_of x m)"
  by (simp add: Let_def ramp_color_def normalized_of_def)

lemma ramp_color_alpha: "rgba_alpha (ramp_color n) = Some (ramp_alpha n)"
  by (simp add: ramp_color_def ramp_alpha_def)

lemma getSlopeColor_alpha:
  "m \<le> x \<Longrightarrow> rgba_alpha (getSlopeColor (Num x) (Num m)) = Some (ramp_alpha (normalized_of x m))"
  by (simp only: getSlopeColor_ramp ramp_color_alpha)

lemma Math_round_channel: "0 \<le> z \<Longrightarrow> z \<le> 255 \<Longrightarrow> is_channel (Math_round z)"
proof -
  assume z: "0 \<le> z" "z \<le> 255"
  have "0 \<le> \<lfloor>z + 1 / 2\<rfloor>" using z by simp
  moreover have "\<lfloor>z + 1 / 2\<rfloor> \<le> 255" using z by (simp add: floor_le_iff)
  ultimately show ?thesis by (simp add: is_channel_def Math_round_def)
qed

lemma ramp_color_well_formed:
  assumes n: "0 \<le> n" "n \<le> 1"
  shows "well_formed_rgba (ramp_color n)"
proof -
  have ch: "is_channel 255" "is_channel 0" by (simp_all add: is_channel_def)
  consider "n < 0.33" | "0.33 \<le> n" "n < 0.66" | "0.66 \<le> n" by linarith
  then show ?thesis
  proof cases
    case 1
    have "is_channel (Math_round (255 - n / 0.33 * 100))"
      using n 1 by (intro Math_round_channel) (simp_all add: field_simps)
    with 1 n ch show ?thesis by (simp add: ramp_color_def)
  next
    case 2
    have "is_channel (Math_round (155 - (n - 0.33) / 0.33 * 100))"
      using n 2 by (intro Math_round_channel) (simp_all add: field_simps)
    with 2 n ch show ?thesis by (simp add: ramp_color_def)
  next
    case 3
    have "is_channel (Math_round (255 - (n - 0.66) / 0.34 * 55))"
      "is_channel (Math_round (55 - (n - 0.66) / 0.34 * 55))"
      using n 3 by (intro Math_round_channel; simp add: field_simps)+
    with 3 n ch show ?thesis by (simp add: ramp_color_def)
  qed
qed

lemma getSlopeColor_well_formed:
  assumes "m \<le> x"
  shows "well_formed_rgba (getSlopeColor (Num x) (Num m))"
  using assms normalized_of_range [of x m]
  by (simp only: getSlopeColor_ramp ramp_color_well_formed)

text \<open>
  Claim C7. For every slope \<open>x\<close> and threshold \<open>m\<close> (proper numbers): below the threshold
  \<open>getSlopeColor\<close> returns \<open>transparent\<close>; from the threshold on it returns a well-formed
  \<open>rgba\<close> colour; and with the threshold fixed the alpha component does not decrease as
  the slope grows.
\<close>

theorem getSlopeColor_transparent_or_rgba:
  "(x < m \<longrightarrow> getSlopeColor (Num x) (Num m) = Transparent)
   \<and> (m \<le> x \<longrightarrow> well_formed_rgba (getSlopeColor (Num x) (Num m)))
   \<and> (m \<le> x \<and> x \<le> y \<longrightarrow>
        (\<exists>a b. rgba_alpha (getSlopeColor (Num x) (Num m)) = Some a
              \<and> rgba_alpha (getSlopeColor (Num y) (Num m)) = Some b \<and> a \<le> b))"
proof (intro conjI impI)
  assume "x < m"
  then show "getSlopeColor (Num x) (Num m) = Transparent" by simp
next
  assume "m \<le> x"
  then show "well_formed_rgba (getSlopeColor (Num x) (Num m))"
    by (rule getSlopeColor_well_formed)
next
  assume xy: "m \<le> x \<and> x \<le> y"
  then have le: "ramp_alpha (normalized_of x m) \<le> ramp_alpha (normalized_of y m)"
    by (intro ramp_alpha_mono normalized_of_mono) simp
  from xy have mx: "m \<le> x" and my: "m \<le> y" by simp_all
  have "rgba_alpha (getSlopeColor (Num x) (Num m)) = Some (ramp_alpha (normalized_of x m))"
    using mx by (rule getSlopeColor_alpha)
  moreover
  have "rgba_alpha (getSlopeColor (Num y) (Num m)) = Some (ramp_alpha (normalized_of y m))"
    using my by (rule getSlopeColor_alpha)
  ultimately show "\<exists>a b. rgba_alpha (getSlopeColor (Num x) (Num m)) = Some a
      \<and> rgba_alpha (getSlopeColor (Num y) (Num m)) = Some b \<and> a \<le> b"
    using le by blast
qed


lemma getSlopeColor_25_5:
  "getSlopeColor (Num 25) (Num 5) = Rgba (Num 255) (Num 103) (Num 0) (Num 0.65)"
  by (simp add: Let_def Math_round_def)

text \<open>Claim C7, witness: threshold 5 with the slopes 3, 25 and 90.\<close>

theorem getSlopeColor_transparent_or_rgba_witness:
  "(3 :: real) < 5 \<and> getSlopeColor (Num 3) (Num 5) = Transparent
   \<and> (5 :: real) \<le> 25 \<and> (25 :: real) \<le> 90
   \<and> well_formed_rgba (getSlopeColor (Num 25) (Num 5))
   \<and> (\<exists>a b. rgba_alpha (getSlopeColor (Num 25) (Num 5)) = Some a
            \<and> rgba_alpha (getSlopeColor (Num 90) (Num 5)) = Some b \<and> a \<le> b)"
  using getSlopeColor_transparent_or_rgba [of 3 5 3]
    getSlopeColor_transparent_or_rgba [of 25 5 90]
  by (simp del: getSlopeColor.simps)

section \<open>Properties of the GeoJSON assembler\<close>

lemma slope_features_empty_iff:
  "slope_features cells cellSize minSlope = [] \<longleftrightarrow> (\<forall>c \<in> set cells. js_lt (slope c) minSlope)"
  by (induction cells) (auto simp: Let_def)

text \<open>
  Claim C8, as amended. With \<open>minSlope = 100\<close>, \<open>createSlopeGeoJSON\<close> returns an empty feature
  list exactly when every input cell has a slope that is a number below 100, whatever the
  cell size.
\<close>

theorem createSlopeGeoJSON_100_empty_iff:
  "features (createSlopeGeoJSON cells cellSize (Num 100)) = []
     \<longleftrightarrow> (\<forall>c \<in> set cells. \<exists>s. slope c = Num s \<and> s < 100)"
proof -
  have "js_lt v (Num 100) \<longleftrightarrow> (\<exists>s. v = Num s \<and> s < 100)" for v
    by (cases v) simp_all
  then show ?thesis
    by (simp add: createSlopeGeoJSON_def slope_features_empty_iff)
qed

text \<open>Claim C8, witness: two cells with the slopes 0 and 89.\<close>

theorem createSlopeGeoJSON_100_empty_iff_witness:
  "features (createSlopeGeoJSON
      [\<lparr>lng = Num 7, lat = Num 51, slope = Num 0, elevation = Elev 120\<rparr>,
       \<lparr>lng = Num 8, lat = Num 51, slope = Num 89, elevation = Elev 400\<rparr>]
      (Num 1) (Num 100)) = []"
  using createSlopeGeoJSON_100_empty_iff [of
      "[\<lparr>lng = Num 7, lat = Num 51, slope = Num 0, elevation = Elev 120\<rparr>,
        \<lparr>lng = Num 8, lat = Num 51, slope = Num 89, elevation = Elev 400\<rparr>]" "Num 1"]
  by simp

text \<open>
  Claim C8 as stated fails: a cell whose slope is 100 is not below the threshold and is
  emitted as a feature.
\<close>

theorem createSlopeGeoJSON_100_counterexample:
  "features (createSlopeGeoJSON
      [\<lparr>lng = Num 7, lat = Num 51, slope = Num 100, elevation = Elev 120\<rparr>]
      (Num 1) (Num 100))
   = [\<lparr>coordinates = [(Num 6.5, Num 50.5), (Num 7.5, Num 50.5), (Num 7.5, Num 51.5),
                       (Num 6.5, Num 51.5), (Num 6.5, Num 50.5)],
       prop_slope = Num 100, prop_elevation = Elev 120,
       prop_color = Rgba (Num 255) (Num 255) (Num 0) (Num 0.3)\<rparr>]
   \<and> features (createSlopeGeoJSON
      [\<lparr>lng = Num 7, lat = Num 51, slope = Num 100, elevation = Elev 120\<rparr>]
      (Num 1) (Num 100)) \<noteq> []"
  by (simp add: createSlopeGeoJSON_def Let_def Math_round_def)

section \<open>Properties of the slope grid\<close>

lemma calculateSlopeGrid_cell_None_iff:
  "calculateSlopeGrid_cell e lngs lats j i = None \<longleftrightarrow> elevAt e j i = Null"
  by (simp add: calculateSlopeGrid_cell_def Let_def)

lemma set_concat_cells:
  "set (concat (map (\<lambda>j. concat (map (\<lambda>i. case f j i of None \<Rightarrow> [] | Some c \<Rightarrow> [c])
          [0 ..< n])) [0 ..< m]))
     = {c. \<exists>j i. j < m \<and> i < n \<and> f j i = Some c}"
proof (intro set_eqI iffI)
  fix c
  assume "c \<in> set (concat (map (\<lambda>j. concat (map (\<lambda>i. case f j i of None \<Rightarrow> [] | Some c \<Rightarrow> [c])
          [0 ..< n])) [0 ..< m]))"
  then obtain j i where "j < m" "i < n" "c \<in> set (case f j i of None \<Rightarrow> [] | Some c \<Rightarrow> [c])"
    by auto
  then have "j < m \<and> i < n \<and> f j i = Some c" by (cases "f j i") simp_all
  then show "c \<in> {c. \<exists>j i. j < m \<and> i < n \<and> f j i = Some c}" by blast
next
  fix c
  assume "c \<in> {c. \<exists>j i. j < m \<and> i < n \<and> f j i = Some c}"
  then obtain j i where ji: "j < m" "i < n" "f j i = Some c" by blast
  then have "c \<in> set (case f j i of None \<Rightarrow> [] | Some c \<Rightarrow> [c])" by simp
  with ji(1,2) show "c \<in> set (concat (map (\<lambda>j. concat (map (\<lambda>i.
      case f j i of None \<Rightarrow> [] | Some c \<Rightarrow> [c]) [0 ..< n])) [0 ..< m]))"
    by (simp only: set_concat set_map set_upt) force
qed

lemma set_calculateSlopeGrid:
  "set (calculateSlopeGrid e lngs lats) =
     {c. \<exists>j i. j < length e - 1 \<and> i < grid_cols e - 1
               \<and> calculateSlopeGrid_cell e lngs lats j i = Some c}"
  unfolding calculateSlopeGrid_def grid_cols_def Let_def
  by (rule set_concat_cells)

lemma fold_max_Num:
  "NaN \<notin> set xs \<Longrightarrow>
     fold (num_binop max) xs (Num a) = Num (Max (set (a # the_reals xs)))"
proof (induction xs arbitrary: a)
  case Nil
  then show ?case by simp
next
  case (Cons x xs)
  then obtain r where x: "x = Num r" by (cases x) auto
  from Cons.prems have "NaN \<notin> set xs" by simp
  then have "fold (num_binop max) xs (Num (max r a)) = Num (Max (set (max r a # the_reals xs)))"
    by (rule Cons.IH)
  moreover have "Max (set (max r a # the_reals xs)) = Max (set (a # the_reals (Num r # xs)))"
    by (cases "the_reals xs = []") (simp_all add: max.assoc max.commute max.left_commute)
  ultimately show ?case by (simp add: x)
qed

lemma fold_max_NaN: "fold (num_binop max) xs NaN = NaN"
  by (induction xs) simp_all

lemma fold_max_has_NaN: "NaN \<in> set xs \<Longrightarrow> fold (num_binop max) xs acc = NaN"
proof (induction xs arbitrary: acc)
  case Nil
  then show ?case by simp
next
  case (Cons x xs)
  show ?case
  proof (cases "x = NaN")
    case True
    then show ?thesis by (simp add: fold_max_NaN)
  next
    case False
    with Cons.prems have "NaN \<in> set xs" by simp
    then show ?thesis by (simp add: Cons.IH)
  qed
qed

lemma Math_max_maximum: "Math_max x xs = maximum_or_zero (x # xs)"
proof (cases x)
  case NaN
  then show ?thesis by (simp add: Math_max_def maximum_or_zero_def fold_max_NaN)
next
  case (Num a)
  show ?thesis
  proof (cases "NaN \<in> set xs")
    case True
    then show ?thesis by (simp add: Math_max_def maximum_or_zero_def fold_max_has_NaN)
  next
    case False
    then show ?thesis using fold_max_Num [OF False, of a]
      by (simp add: Math_max_def maximum_or_zero_def Num)
  qed
qed

lemma slopes_case_maximum:
  "(case xs of [] \<Rightarrow> Num 0 | x # ys \<Rightarrow> Math_max x ys) = maximum_or_zero xs"
  by (cases xs) (simp_all add: Math_max_maximum, simp add: maximum_or_zero_def)

lemma calculateSlopeGrid_cell_slope:
  assumes "calculateSlopeGrid_cell e lngs lats j i = Some c"
  shows "slope c = maximum_or_zero (available_slopes e lngs lats j i)"
proof -
  from assms have base: "elevAt e j i \<noteq> Null"
    using calculateSlopeGrid_cell_None_iff [of e lngs lats j i] by auto
  have "slope c = (case available_slopes e lngs lats j i of
                     [] \<Rightarrow> Num 0 | x # xs \<Rightarrow> Math_max x xs)"
    using assms base
    by (auto simp: calculateSlopeGrid_cell_def available_slopes_def directions_def Let_def)
  then show ?thesis by (simp only: slopes_case_maximum)
qed

lemma available_slopes_all_null:
  assumes "elevAt e j (i + 1) = Null" "elevAt e (j + 1) i = Null"
    "elevAt e (j + 1) (i + 1) = Null"
  shows "available_slopes e lngs lats j i = []"
  using assms by (simp add: available_slopes_def directions_def)


lemma calculateSlopeGrid_cell_emitted:
  assumes "j < length e - 1" "i < grid_cols e - 1" "elevAt e j i \<noteq> Null"
  shows "\<exists>c. calculateSlopeGrid_cell e lngs lats j i = Some c
             \<and> c \<in> set (calculateSlopeGrid e lngs lats)"
proof -
  from assms(3) obtain c where c: "calculateSlopeGrid_cell e lngs lats j i = Some c"
    using calculateSlopeGrid_cell_None_iff [of e lngs lats j i] by auto
  with assms(1,2) have "c \<in> set (calculateSlopeGrid e lngs lats)"
    unfolding set_calculateSlopeGrid by blast
  with c show ?thesis by blast
qed

text \<open>
  Claim C2, as amended. At every position \<open>(j, i)\<close> the loops visit, \<open>calculateSlopeGrid\<close>
  emits a cell exactly when the base sample \<open>elevations[j][i]\<close> is not null, whether or
  not any of the three neighbouring samples is.
\<close>

theorem calculateSlopeGrid_emits_iff_base_not_null:
  assumes "j < length e - 1" and "i < grid_cols e - 1"
  shows "(\<exists>c. calculateSlopeGrid_cell e lngs lats j i = Some c
              \<and> c \<in> set (calculateSlopeGrid e lngs lats))
         \<longleftrightarrow> elevAt e j i \<noteq> Null"
  using calculateSlopeGrid_cell_emitted [OF assms]
    calculateSlopeGrid_cell_None_iff [of e lngs lats j i]
  by auto

text \<open>
  A two by two grid whose only sample is the base one: the three neighbours are null, and
  one cell of slope 0 is emitted all the same.
\<close>

lemma grid_with_null_neighbours:
  "calculateSlopeGrid [[Some 0, None], [None, None]] [0, 1] [0, 1]
     = [\<lparr>lng = Num (1 / 2), lat = Num (1 / 2), slope = Num 0, elevation = Elev 0\<rparr>]"
  by (simp add: calculateSlopeGrid_def calculateSlopeGrid_cell_def elevAt_def numAt_def
      Let_def)

text \<open>
  Claim C2 as stated fails: at position \<open>(0, 0)\<close> of that grid a cell is emitted although
  the right, the upper and the diagonal neighbour are all null.
\<close>

theorem calculateSlopeGrid_all_null_neighbours_counterexample:
  "calculateSlopeGrid [[Some 0, None], [None, None]] [0, 1] [0, 1]
     = [\<lparr>lng = Num (1 / 2), lat = Num (1 / 2), slope = Num 0, elevation = Elev 0\<rparr>]
   \<and> calculateSlopeGrid_cell [[Some 0, None], [None, None]] [0, 1] [0, 1] 0 0
     = Some \<lparr>lng = Num (1 / 2), lat = Num (1 / 2), slope = Num 0, elevation = Elev 0\<rparr>
   \<and> elevAt [[Some 0, None], [None, None]] 0 (0 + 1) = Null
   \<and> elevAt [[Some 0, None], [None, None]] (0 + 1) 0 = Null
   \<and> elevAt [[Some 0, None], [None, None]] (0 + 1) (0 + 1) = Null"
  by (simp add: grid_with_null_neighbours)
    (simp add: calculateSlopeGrid_cell_def elevAt_def numAt_def Let_def)

text \<open>Claim C2, witness: position \<open>(0, 0)\<close> of the same grid.\<close>

theorem calculateSlopeGrid_emits_iff_base_not_null_witness:
  "(0 :: nat) < length [[Some (0 :: real), None], [None, None]] - 1
   \<and> (0 :: nat) < grid_cols [[Some 0, None], [None, None]] - 1
   \<and> elevAt [[Some 0, None], [None, None]] 0 0 \<noteq> Null
   \<and> (\<exists>c. calculateSlopeGrid_cell [[Some 0, None], [None, None]] [0, 1] [0, 1] 0 0 = Some c
          \<and> c \<in> set (calculateSlopeGrid [[Some 0, None], [None, None]] [0, 1] [0, 1]))"
  using calculateSlopeGrid_emits_iff_base_not_null
    [of 0 "[[Some 0, None], [None, None]]" 0 "[0, 1]" "[0, 1]"]
  by (simp add: grid_cols_def elevAt_def)

text \<open>
  Claim C5. Every cell that \<open>calculateSlopeGrid\<close> emits comes from a position of the grid,
  and its slope is the maximum of the directional slopes toward those of the right, upper
  and diagonal neighbours that are not null (0 when there is none). Conversely, at every
  position whose base sample is not null a cell is emitted, null neighbours or not (the
  function has no failing branch), with that slope; when the three neighbours are all
  null the slope is 0.
\<close>

theorem calculateSlopeGrid_slope_is_maximum:
  "(c \<in> set (calculateSlopeGrid e lngs lats) \<longrightarrow>
      (\<exists>j i. j < length e - 1 \<and> i < grid_cols e - 1
            \<and> calculateSlopeGrid_cell e lngs lats j i = Some c
            \<and> slope c = maximum_or_zero (available_slopes e lngs lats j i)))
   \<and> (j < length e - 1 \<and> i < grid_cols e - 1 \<and> elevAt e j i \<noteq> Null \<longrightarrow>
      (\<exists>c'. calculateSlopeGrid_cell e lngs lats j i = Some c'
           \<and> c' \<in> set (calculateSlopeGrid e lngs lats)
           \<and> slope c' = maximum_or_zero (available_slopes e lngs lats j i)
           \<and> (elevAt e j (i + 1) = Null \<and> elevAt e (j + 1) i = Null
                \<and> elevAt e (j + 1) (i + 1) = Null \<longrightarrow> slope c' = Num 0)))"
proof (intro conjI impI)
  assume "c \<in> set (calculateSlopeGrid e lngs lats)"
  then obtain j i where ji: "j < length e - 1" "i < grid_cols e - 1"
      "calculateSlopeGrid_cell e lngs lats j i = Some c"
    unfolding set_calculateSlopeGrid by blast
  from ji(3) have "slope c = maximum_or_zero (available_slopes e lngs lats j i)"
    by (rule calculateSlopeGrid_cell_slope)
  with ji show "\<exists>j i. j < length e - 1 \<and> i < grid_cols e - 1
      \<and> calculateSlopeGrid_cell e lngs lats j i = Some c
      \<and> slope c = maximum_or_zero (available_slopes e lngs lats j i)"
    by blast
next
  assume pos: "j < length e - 1 \<and> i < grid_cols e - 1 \<and> elevAt e j i \<noteq> Null"
  then obtain c' where c': "calculateSlopeGrid_cell e lngs lats j i = Some c'"
      "c' \<in> set (calculateSlopeGrid e lngs lats)"
    using calculateSlopeGrid_cell_emitted [of j e i lngs lats] by blast
  from c'(1) have m: "slope c' = maximum_or_zero (available_slopes e lngs lats j i)"
    by (rule calculateSlopeGrid_cell_slope)
  have "slope c' = Num 0"
    if "elevAt e j (i + 1) = Null \<and> elevAt e (j + 1) i = Null
        \<and> elevAt e (j + 1) (i + 1) = Null"
    using that m by (simp add: available_slopes_all_null maximum_or_zero_def)
  with c' m show "\<exists>c'. calculateSlopeGrid_cell e lngs lats j i = Some c'
      \<and> c' \<in> set (calculateSlopeGrid e lngs lats)
      \<and> slope c' = maximum_or_zero (available_slopes e lngs lats j i)
      \<and> (elevAt e j (i + 1) = Null \<and> elevAt e (j + 1) i = Null
           \<and> elevAt e (j + 1) (i + 1) = Null \<longrightarrow> slope c' = Num 0)"
    by blast
qed


text \<open>
  Claim C5, witness: the grid with three null neighbours, and a grid whose upper
  neighbour alone is null, where two directional slopes remain.
\<close>

theorem calculateSlopeGrid_slope_is_maximum_witness:
  "\<lparr>lng = Num (1 / 2), lat = Num (1 / 2), slope = Num 0, elevation = Elev 0\<rparr>
      \<in> set (calculateSlopeGrid [[Some 0, None], [None, None]] [0, 1] [0, 1])
   \<and> (\<exists>j i. j < length [[Some (0 :: real), None], [None, None]] - 1
          \<and> i < grid_cols [[Some 0, None], [None, None]] - 1
          \<and> calculateSlopeGrid_cell [[Some 0, None], [None, None]] [0, 1] [0, 1] j i
              = Some \<lparr>lng = Num (1 / 2), lat = Num (1 / 2), slope = Num 0, elevation = Elev 0\<rparr>
          \<and> slope \<lparr>lng = Num (1 / 2), lat = Num (1 / 2), slope = Num 0, elevation = Elev 0\<rparr>
              = maximum_or_zero (available_slopes [[Some 0, None], [None, None]] [0, 1] [0, 1] j i))
   \<and> (0 :: nat) < length [[Some (0 :: real), None], [None, None]] - 1
   \<and> (0 :: nat) < grid_cols [[Some 0, None], [None, None]] - 1
   \<and> elevAt [[Some 0, None], [None, None]] 0 0 \<noteq> Null
   \<and> elevAt [[Some 0, None], [None, None]] 0 (0 + 1) = Null
   \<and> elevAt [[Some 0, None], [None, None]] (0 + 1) 0 = Null
   \<and> elevAt [[Some 0, None], [None, None]] (0 + 1) (0 + 1) = Null
   \<and> (\<exists>c'. calculateSlopeGrid_cell [[Some 0, None], [None, None]] [0, 1] [0, 1] 0 0 = Some c'
          \<and> c' \<in> set (calculateSlopeGrid [[Some 0, None], [None, None]] [0, 1] [0, 1])
          \<and> slope c' = Num 0)
   \<and> (0 :: nat) < length [[Some (0 :: real), Some 0], [None, Some 100]] - 1
   \<and> (0 :: nat) < grid_cols [[Some 0, Some 0], [None, Some 100]] - 1
   \<and> elevAt [[Some 0, Some 0], [None, Some 100]] 0 0 \<noteq> Null
   \<and> (\<exists>c'. calculateSlopeGrid_cell [[Some 0, Some 0], [None, Some 100]] [0, 1] [0, 1] 0 0 = Some c'
          \<and> c' \<in> set (calculateSlopeGrid [[Some 0, Some 0], [None, Some 100]] [0, 1] [0, 1])
          \<and> slope c' = maximum_or_zero
               (available_slopes [[Some 0, Some 0], [None, Some 100]] [0, 1] [0, 1] 0 0))
   \<and> length (available_slopes [[Some 0, Some 0], [None, Some 100]] [0, 1] [0, 1] 0 0) = 2"
proof -
  let ?c0 = "\<lparr>lng = Num (1 / 2), lat = Num (1 / 2), slope = Num 0, elevation = Elev 0\<rparr>"
  let ?e0 = "[[Some (0 :: real), None], [None, None]]"
  let ?e1 = "[[Some (0 :: real), Some 0], [None, Some 100]]"
  have in0: "?c0 \<in> set (calculateSlopeGrid ?e0 [0, 1] [0, 1])"
    by (simp add: grid_with_null_neighbours)
  have pos0: "(0 :: nat) < length ?e0 - 1 \<and> (0 :: nat) < grid_cols ?e0 - 1
      \<and> elevAt ?e0 0 0 \<noteq> Null"
    by (simp add: grid_cols_def elevAt_def)
  have nulls: "elevAt ?e0 0 (0 + 1) = Null \<and> elevAt ?e0 (0 + 1) 0 = Null
      \<and> elevAt ?e0 (0 + 1) (0 + 1) = Null"
    by (simp add: elevAt_def)
  have pos1: "(0 :: nat) < length ?e1 - 1 \<and> (0 :: nat) < grid_cols ?e1 - 1
      \<and> elevAt ?e1 0 0 \<noteq> Null"
    by (simp add: grid_cols_def elevAt_def)
  have len: "length (available_slopes ?e1 [0, 1] [0, 1] 0 0) = 2"
    by (simp add: available_slopes_def directions_def elevAt_def)
  from in0 pos0 nulls pos1 len show ?thesis
    using calculateSlopeGrid_slope_is_maximum [of ?c0 ?e0 "[0, 1]" "[0, 1]" 0 0]
      calculateSlopeGrid_slope_is_maximum [of ?c0 ?e1 "[0, 1]" "[0, 1]" 0 0]
    by blast
qed

section \<open>The range of the slopes\<close>

















section \<open>Properties of the haversine distance\<close>

text \<open>
  The quantity under the two square roots is a haversine: it lies between 0 and 1
  whatever the coordinates, so neither square root is taken of a negative number.
\<close>

lemma haversine_a_range:
  fixes p1 p2 v :: real
  defines "u \<equiv> (p2 - p1) / 2"
  defines "a \<equiv> sin u * sin u + cos p1 * cos p2 * sin v * sin v"
  shows "0 \<le> a \<and> a \<le> 1"
proof -
  define s where "s = sin u * sin u"
  define t where "t = sin v * sin v"
  define k where "k = cos p1 * cos p2"
  have s: "0 \<le> s" "s \<le> 1"
    using abs_sin_le_one [of u]
    by (simp_all add: s_def power2_eq_square [symmetric] abs_square_le_1)
  have t: "0 \<le> t" "t \<le> 1"
    using abs_sin_le_one [of v]
    by (simp_all add: t_def power2_eq_square [symmetric] abs_square_le_1)
  have "cos (p1 - p2) = 1 - 2 * s"
  proof -
    have "p1 - p2 = - (2 * u)" unfolding u_def by argo
    then have "cos (p1 - p2) = cos (2 * u)" by (simp only: cos_minus)
    also have "\<dots> = 1 - 2 * s" by (simp add: cos_double_sin s_def power2_eq_square)
    finally show ?thesis .
  qed
  moreover have "k = (cos (p1 - p2) + cos (p1 + p2)) / 2"
    by (simp add: k_def cos_times_cos)
  ultimately have kk: "k = (1 - 2 * s + cos (p1 + p2)) / 2" by simp
  have c: "- 1 \<le> cos (p1 + p2)" "cos (p1 + p2) \<le> 1" by simp_all
  have k1: "- s \<le> k" using kk c by argo
  have k2: "k \<le> 1 - s" using kk c by argo
  have a: "a = s + k * t" by (simp add: a_def s_def t_def k_def mult.assoc)
  have "0 \<le> s + k * t \<and> s + k * t \<le> 1"
  proof (cases "0 \<le> k")
    case True
    have "k * t \<le> k * 1" using True t by (intro mult_left_mono) simp_all
    moreover have "0 \<le> k * t" using True t by simp
    ultimately show ?thesis using s k1 k2 by argo
  next
    case False
    then have neg: "k \<le> 0" by simp
    have "k * 1 \<le> k * t" using neg t by (intro mult_left_mono_neg) simp_all
    moreover have "k * t \<le> 0" using neg t by (simp add: mult_nonpos_nonneg)
    ultimately show ?thesis using s k1 k2 by argo
  qed
  then show ?thesis by (simp only: a)
qed

lemma Math_atan2_nonneg: "0 \<le> y \<Longrightarrow> 0 \<le> x \<Longrightarrow> 0 \<le> Math_atan2 y x"
  by (simp add: Math_atan2_def zero_le_arctan_iff)

lemma haversineDistance_number:
  "\<exists>d. haversineDistance (Num p1) (Num l1) (Num p2) (Num l2) = Num d \<and> 0 \<le> d"
proof -
  define a where "a = sin ((p2 - p1) * (pi / 180) / 2) * sin ((p2 - p1) * (pi / 180) / 2)
      + cos (p1 * (pi / 180)) * cos (p2 * (pi / 180))
        * sin ((l2 - l1) * (pi / 180) / 2) * sin ((l2 - l1) * (pi / 180) / 2)"
  have "(p2 - p1) * (pi / 180) / 2 = (p2 * (pi / 180) - p1 * (pi / 180)) / 2"
    by (simp only: left_diff_distrib)
  then have a: "0 \<le> a \<and> a \<le> 1"
    using haversine_a_range [of "p2 * (pi / 180)" "p1 * (pi / 180)" "(l2 - l1) * (pi / 180) / 2"]
    by (simp only: a_def)
  have eq: "haversineDistance (Num p1) (Num l1) (Num p2) (Num l2) =
      num_binop (*) (Num 6371000) (num_binop (*) (Num 2)
        (num_binop Math_atan2 (Math_sqrt (Num a)) (Math_sqrt (Num (1 - a)))))"
    by (simp only: haversineDistance.simps Let_def a_def)
  have "0 \<le> Math_atan2 (sqrt a) (sqrt (1 - a))"
    using a by (intro Math_atan2_nonneg) simp_all
  with a show ?thesis unfolding eq by simp
qed

text \<open>
  The haversine distance is symmetric in its two points, and the distance from
  a point to itself is 0.
\<close>

theorem haversineDistance_symmetric_and_zero:
  "haversineDistance p1 l1 p2 l2 = haversineDistance p2 l2 p1 l1
   \<and> haversineDistance (Num p) (Num l) (Num p) (Num l) = Num 0"
proof
  show "haversineDistance p1 l1 p2 l2 = haversineDistance p2 l2 p1 l1"
  proof (cases "\<exists>a b c d. p1 = Num a \<and> l1 = Num b \<and> p2 = Num c \<and> l2 = Num d")
    case True
    then obtain a b c d where n: "p1 = Num a" "l1 = Num b" "p2 = Num c" "l2 = Num d"
      by blast
    have flip: "(x - y) * (pi / 180) / 2 = - ((y - x) * (pi / 180) / 2)" for x y :: real
      by (simp add: field_simps)
    have sq: "sin ((x - y) * (pi / 180) / 2) * sin ((x - y) * (pi / 180) / 2)
        = sin ((y - x) * (pi / 180) / 2) * sin ((y - x) * (pi / 180) / 2)" for x y :: real
      by (simp only: flip [of x y] sin_minus minus_mult_minus)
    have "sin ((c - a) * (pi / 180) / 2) * sin ((c - a) * (pi / 180) / 2)
        + cos (a * (pi / 180)) * cos (c * (pi / 180))
          * sin ((d - b) * (pi / 180) / 2) * sin ((d - b) * (pi / 180) / 2)
      = sin ((a - c) * (pi / 180) / 2) * sin ((a - c) * (pi / 180) / 2)
        + cos (c * (pi / 180)) * cos (a * (pi / 180))
          * sin ((b - d) * (pi / 180) / 2) * sin ((b - d) * (pi / 180) / 2)"
      using sq [of c a] sq [of d b] by (simp only: mult.assoc) (simp only: mult_ac)
    then show ?thesis by (simp only: n haversineDistance.simps Let_def)
  next
    case False
    then have "haversineDistance p1 l1 p2 l2 = NaN"
      by (cases p1; cases l1; cases p2; cases l2) simp_all
    moreover from False have "haversineDistance p2 l2 p1 l1 = NaN"
      by (cases p1; cases l1; cases p2; cases l2) simp_all
    ultimately show ?thesis by simp
  qed
next
  show "haversineDistance (Num p) (Num l) (Num p) (Num l) = Num 0"
    by (simp add: Let_def Math_atan2_def)
qed


section \<open>A flat elevation matrix\<close>

lemma elevAt_flat:
  assumes "rectangular e" and "\<forall>row \<in> set e. \<forall>x \<in> set row. x = Some v"
    and "j < length e" and "i < grid_cols e"
  shows "elevAt e j i = Elev v"
proof -
  from assms(1,3) have len: "length (e ! j) = grid_cols e" by (simp add: rectangular_def)
  from assms(3) have "e ! j \<in> set e" by simp
  moreover from len assms(4) have "e ! j ! i \<in> set (e ! j)" by simp
  ultimately have "e ! j ! i = Some v" using assms(2) by blast
  with len assms(3,4) show ?thesis by (simp add: elevAt_def)
qed

lemma calculateSlopeAngle_flat: "calculateSlopeAngle (Num 0) (Num d) = Num 0"
  by simp

lemma maximum_or_zero_zeros:
  assumes "\<forall>x \<in> set xs. x = Num 0"
  shows "maximum_or_zero xs = Num 0"
proof (cases "xs = []")
  case True
  then show ?thesis by (simp add: maximum_or_zero_def)
next
  case False
  from assms have nonan: "NaN \<notin> set xs" by auto
  have "set (the_reals xs) = {r. Num r \<in> set xs}"
    by (induction xs rule: the_reals.induct) auto
  moreover from False obtain x where "x \<in> set xs" by (cases xs) auto
  with assms have "Num 0 \<in> set xs" by auto
  ultimately have "set (the_reals xs) = {0}" using assms by auto
  with False nonan show ?thesis by (simp add: maximum_or_zero_def)
qed

text \<open>
  On a rectangular elevation matrix whose samples are all the same number,
  with coordinate arrays that cover the grid, every cell of \<open>calculateSlopeGrid\<close> has
  slope 0.
\<close>

theorem calculateSlopeGrid_flat_matrix:
  assumes rect: "rectangular e"
    and flat: "\<forall>row \<in> set e. \<forall>x \<in> set row. x = Some v"
    and lats: "length e \<le> length lats" and lngs: "grid_cols e \<le> length lngs"
    and c: "c \<in> set (calculateSlopeGrid e lngs lats)"
  shows "slope c = Num 0"
proof -
  from c obtain j i where ji: "j < length e - 1" "i < grid_cols e - 1"
      "calculateSlopeGrid_cell e lngs lats j i = Some c"
    unfolding set_calculateSlopeGrid by blast
  have el: "elevAt e j i = Elev v" "elevAt e j (i + 1) = Elev v"
    "elevAt e (j + 1) i = Elev v" "elevAt e (j + 1) (i + 1) = Elev v"
    using rect flat ji(1,2) by (intro elevAt_flat; simp)+
  from ji(1,2) lats lngs have n: "numAt lats j = Num (lats ! j)"
      "numAt lats (j + 1) = Num (lats ! (j + 1))" "numAt lngs i = Num (lngs ! i)"
      "numAt lngs (i + 1) = Num (lngs ! (i + 1))"
    by (simp_all add: numAt_def)
  obtain a where a: "distRight lngs lats j i = Num a" "0 \<le> a"
    using haversineDistance_number [of "lats ! j" "lngs ! i" "lats ! j" "lngs ! (i + 1)"]
    by (auto simp only: distRight_def n)
  obtain b where b: "distUp lngs lats j i = Num b" "0 \<le> b"
    using haversineDistance_number [of "lats ! j" "lngs ! i" "lats ! (j + 1)" "lngs ! i"]
    by (auto simp only: distUp_def n)
  have "\<forall>x \<in> set (available_slopes e lngs lats j i). x = Num 0"
    unfolding available_slopes_def directions_def el a b
    by (simp add: not_sum_squares_lt_zero)
  then have "maximum_or_zero (available_slopes e lngs lats j i) = Num 0"
    by (rule maximum_or_zero_zeros)
  then show ?thesis by (simp only: calculateSlopeGrid_cell_slope [OF ji(3)])
qed

text \<open>At a concrete input: a two by two matrix of the elevation 7.\<close>

theorem calculateSlopeGrid_flat_matrix_witness:
  "rectangular [[Some 7, Some 7], [Some 7, Some 7]]
   \<and> length [[Some (7 :: real), Some 7], [Some 7, Some 7]] \<le> length [0 :: real, 1]
   \<and> grid_cols [[Some 7, Some 7], [Some 7, Some 7]] \<le> length [0 :: real, 1]
   \<and> hd (calculateSlopeGrid [[Some 7, Some 7], [Some 7, Some 7]] [0, 1] [0, 1])
       \<in> set (calculateSlopeGrid [[Some 7, Some 7], [Some 7, Some 7]] [0, 1] [0, 1])
   \<and> slope (hd (calculateSlopeGrid [[Some 7, Some 7], [Some 7, Some 7]] [0, 1] [0, 1])) = Num 0"
proof -
  let ?e = "[[Some (7 :: real), Some 7], [Some 7, Some 7]]"
  let ?g = "calculateSlopeGrid ?e [0, 1] [0, 1]"
  have rect: "rectangular ?e" by (simp add: rectangular_def grid_cols_def)
  have flat: "\<forall>row \<in> set ?e. \<forall>x \<in> set row. x = Some 7" by simp
  have l1: "length ?e \<le> length [0 :: real, 1]" by simp
  have l2: "grid_cols ?e \<le> length [0 :: real, 1]" by (simp add: grid_cols_def)
  have "length ?g = 1"
    by (simp add: calculateSlopeGrid_def calculateSlopeGrid_cell_def elevAt_def Let_def)
  then have mem: "hd ?g \<in> set ?g" by (cases ?g) simp_all
  from rect l1 l2 mem show ?thesis
    using calculateSlopeGrid_flat_matrix [OF rect flat l1 l2 mem]
    by (simp only: simp_thms)
qed

section \<open>Further properties of the proxy route\<close>

text \<open>
  When the upstream fetch is fulfilled with a status from 200 to 299, the
  response of \<open>GET\<close> carries the four permissive CORS headers, the upstream status and
  the upstream body.
\<close>

theorem GET_success_carries_cors:
  assumes "fetch (s3Url path) ''GET'' (forwarded_headers req) = Fulfilled response"
    and "200 \<le> up_status response" and "up_status response \<le> 299"
  shows "cors_headers_present (headers (GET fetch req path))
       \<and> status (GET fetch req path) = up_status response
       \<and> body (GET fetch req path) = Passed (up_body response)"
  using GET_fulfilled_ok [of fetch path req response] assms by (simp add: ok_def)

text \<open>At a concrete input: an upstream 206 with a \<open>content-range\<close> header, which is forwarded.\<close>

theorem GET_success_carries_cors_witness:
  "(200 :: nat) \<le> 206 \<and> (206 :: nat) \<le> 299
   \<and> cors_headers_present (headers (GET
        (\<lambda>url method hs. Fulfilled \<lparr>up_status = 206,
           up_headers = [(''content-range'', ''bytes 0-99/1000'')], up_body = Some ''II*''\<rparr>)
        \<lparr>req_headers = [(''range'', ''bytes=0-99'')]\<rparr> [''a'', ''b.tif'']))
   \<and> map_of (headers (GET
        (\<lambda>url method hs. Fulfilled \<lparr>up_status = 206,
           up_headers = [(''content-range'', ''bytes 0-99/1000'')], up_body = Some ''II*''\<rparr>)
        \<lparr>req_headers = [(''range'', ''bytes=0-99'')]\<rparr> [''a'', ''b.tif''])) ''Content-Range''
      = Some ''bytes 0-99/1000''"
proof -
  have "map_of (headers (GET
        (\<lambda>url method hs. Fulfilled \<lparr>up_status = 206,
           up_headers = [(''content-range'', ''bytes 0-99/1000'')], up_body = Some ''II*''\<rparr>)
        \<lparr>req_headers = [(''range'', ''bytes=0-99'')]\<rparr> [''a'', ''b.tif''])) ''Content-Range''
      = Some ''bytes 0-99/1000''"
    by (simp add: GET_def ok_def Let_def set_if_present_def)
  then show ?thesis
    using GET_success_carries_cors [of
      "\<lambda>url method hs. Fulfilled \<lparr>up_status = 206,
           up_headers = [(''content-range'', ''bytes 0-99/1000'')], up_body = Some ''II*''\<rparr>"
      "[''a'', ''b.tif'']" "\<lparr>req_headers = [(''range'', ''bytes=0-99'')]\<rparr>"
      "\<lparr>up_status = 206,
           up_headers = [(''content-range'', ''bytes 0-99/1000'')], up_body = Some ''II*''\<rparr>"]
    by simp
qed

text \<open>\<open>OPTIONS\<close> answers 204 with the four CORS headers and no body.\<close>

theorem OPTIONS_answers_204_with_cors:
  "status OPTIONS = 204 \<and> cors_headers_present (headers OPTIONS) \<and> body OPTIONS = Passed None"
  by (simp add: OPTIONS_def cors_headers_present_def)


section \<open>Decimal digits\<close>

lemma digit_value_digit_char: "d < 10 \<Longrightarrow> digit_value (digit_char d) = d"
proof -
  assume "d < 10"
  then have "d \<in> {0, 1, 2, 3, 4, 5, 6, 7, 8, 9}" by auto
  then show ?thesis by (auto simp: digit_char_def digit_value_def)
qed

lemma digit_char_is_digit: "d < 10 \<Longrightarrow> digit_char d \<in> set ''0123456789''"
proof -
  assume "d < 10"
  then have "d \<in> {0, 1, 2, 3, 4, 5, 6, 7, 8, 9}" by auto
  then show ?thesis by (auto simp: digit_char_def)
qed

lemma decimal_value_snoc:
  "decimal_value (xs @ [c]) = 10 * decimal_value xs + digit_value c"
  by (simp add: decimal_value_def)

lemma decimal_value_toString: "decimal_value (toString n) = n"
proof (induction n rule: toString.induct)
  case (1 n)
  show ?case
  proof (cases "n < 10")
    case True
    then show ?thesis
      by (simp add: toString.simps [of n] decimal_value_def digit_value_digit_char)
  next
    case False
    have "n mod 10 < 10" by simp
    then have "digit_value (digit_char (n mod 10)) = n mod 10"
      by (rule digit_value_digit_char)
    with False "1.IH" show ?thesis
      by (simp add: toString.simps [of n] decimal_value_snoc)
  qed
qed

lemma toString_digits: "set (toString n) \<subseteq> set ''0123456789''"
proof (induction n rule: toString.induct)
  case (1 n)
  show ?case
  proof (cases "n < 10")
    case True
    then show ?thesis
      using digit_char_is_digit [of n] by (simp add: toString.simps [of n])
  next
    case False
    have "n mod 10 < 10" by simp
    then have "digit_char (n mod 10) \<in> set ''0123456789''" by (rule digit_char_is_digit)
    with False "1.IH" show ?thesis by (simp add: toString.simps [of n])
  qed
qed

lemma decimal_value_leading_zeros:
  "decimal_value (replicate k (CHR ''0'') @ s) = decimal_value s"
proof (induction k)
  case 0
  then show ?case by simp
next
  case (Suc k)
  have "decimal_value (CHR ''0'' # xs) = decimal_value xs" for xs
    by (simp add: decimal_value_def digit_value_def)
  with Suc show ?case by simp
qed

text \<open>
  The string \<open>toString\<close> gives for a natural number consists of decimal digits and
  denotes that number; padding with zeros keeps the number, gives at least the asked
  width, and is what \<open>padStart\<close> with the pad \<open>0\<close> computes.
\<close>

theorem toString_is_decimal:
  "decimal_value (toString n) = n
   \<and> set (toString n) \<subseteq> set ''0123456789''
   \<and> decimal_value (zero_padded w n) = n
   \<and> length (zero_padded w n) = max w (length (toString n))
   \<and> padStart w (CHR ''0'') (toString n) = zero_padded w n"
  using toString_digits [of n]
  by (simp add: decimal_value_toString zero_padded_def
      decimal_value_leading_zeros padStart_def max_def)

section \<open>Further properties of the GeoJSON assembler\<close>

lemma slope_features_slopes:
  "map prop_slope (slope_features cells cellSize minSlope)
     = map slope (filter (\<lambda>c. \<not> js_lt (slope c) minSlope) cells)"
  by (induction cells) (simp_all add: Let_def)

lemma slope_features_rings:
  "list_all (\<lambda>f. length (coordinates f) = 5 \<and> hd (coordinates f) = last (coordinates f))
     (slope_features cells cellSize minSlope)"
  by (induction cells) (simp_all add: Let_def)

text \<open>
  \<open>createSlopeGeoJSON\<close> emits one feature, in order, for each cell that is not
  below the threshold, with the cell's slope as its property; every ring has five
  coordinates and closes on its first.
\<close>

theorem createSlopeGeoJSON_features:
  "map prop_slope (features (createSlopeGeoJSON cells cellSize minSlope))
     = map slope (filter (\<lambda>c. \<not> js_lt (slope c) minSlope) cells)
   \<and> list_all (\<lambda>f. length (coordinates f) = 5 \<and> hd (coordinates f) = last (coordinates f))
        (features (createSlopeGeoJSON cells cellSize minSlope))"
  by (simp add: createSlopeGeoJSON_def slope_features_slopes slope_features_rings)

text \<open>
  The haversine distance between two points with proper coordinates is a
  number, and it is not negative.
\<close>

theorem haversineDistance_is_a_distance:
  "\<exists>d. haversineDistance (Num p1) (Num l1) (Num p2) (Num l2) = Num d \<and> 0 \<le> d"
  by (rule haversineDistance_number)

text \<open>
  When the upstream fetch throws, \<open>GET\<close> answers 500 with the fixed JSON error
  body.
\<close>

theorem GET_fetch_failure_is_500:
  assumes "fetch (s3Url path) ''GET'' (forwarded_headers req) = Rejected"
  shows "status (GET fetch req path) = 500
       \<and> body (GET fetch req path) = Json_error ''Failed to fetch COG file''"
  using GET_rejected [of fetch path req] assms by (simp add: NextResponse_json_def)

text \<open>At a concrete input: a fetch that always throws.\<close>

theorem GET_fetch_failure_is_500_witness:
  "status (GET (\<lambda>url method hs. Rejected) \<lparr>req_headers = []\<rparr> [''a'', ''b.tif'']) = 500
   \<and> body (GET (\<lambda>url method hs. Rejected) \<lparr>req_headers = []\<rparr> [''a'', ''b.tif''])
      = Json_error ''Failed to fetch COG file''"
  using GET_fetch_failure_is_500 [of "\<lambda>url method hs. Rejected" "[''a'', ''b.tif'']"
      "\<lparr>req_headers = []\<rparr>"]
  by simp

end
